theory Spec2Isabelle
  imports Main "HOL-Library.Sublist" "HOL-Library.Monad_Syntax" "HOL-Library.Multiset"
begin

section \<open>Text\<close>

text \<open>
  Python \<open>str\<close> values are modelled by \<^typ>\<open>string\<close>. Case folding and whitespace are
  modelled for ASCII: \<open>lower\<close> maps \<open>A\<close>..\<open>Z\<close> to \<open>a\<close>..\<open>z\<close> and leaves every other
  character alone, and the whitespace characters are the ten ASCII characters for which
  \<open>str.isspace\<close> holds. Text outside ASCII is carried as its UTF-8 bytes.
\<close>

definition is_space :: "char \<Rightarrow> bool" where
  "is_space c = (c \<in> set [CHR 0x09, CHR 0x0A, CHR 0x0B, CHR 0x0C, CHR 0x0D,
                           CHR 0x1C, CHR 0x1D, CHR 0x1E, CHR 0x1F, CHR 0x20])"

definition lower_char :: "char \<Rightarrow> char" where
  "lower_char c =
     (case map_of (zip ''ABCDEFGHIJKLMNOPQRSTUVWXYZ'' ''abcdefghijklmnopqrstuvwxyz'') c of
        Some l \<Rightarrow> l
      | None \<Rightarrow> c)"

definition lower :: "string \<Rightarrow> string" where
  "lower s = map lower_char s"

text \<open>\<open>s.split()\<close>: the maximal runs of non-whitespace characters, left to right.\<close>

fun split_from :: "string \<Rightarrow> string \<Rightarrow> string list" where
  "split_from cur [] = (if cur = [] then [] else [cur])"
| "split_from cur (c # cs) =
     (if is_space c then (if cur = [] then split_from [] cs else cur # split_from [] cs)
      else split_from (cur @ [c]) cs)"

definition py_split :: "string \<Rightarrow> string list" where
  "py_split s = split_from [] s"

text \<open>\<open>sep.join(xs)\<close> on a list of strings.\<close>

fun join :: "string \<Rightarrow> string list \<Rightarrow> string" where
  "join sep [] = []"
| "join sep [x] = x"
| "join sep (x # y # ys) = x @ sep @ join sep (y # ys)"

text \<open>\<open>s.strip()\<close>: whitespace removed at both ends.\<close>

definition strip :: "string \<Rightarrow> string" where
  "strip s = rev (dropWhile is_space (rev (dropWhile is_space s)))"

text \<open>\<open>t in s\<close> on strings is \<^const>\<open>sublist\<close>: \<open>s = ps @ t @ ss\<close> for some \<open>ps\<close>, \<open>ss\<close>.\<close>

fun nat_dec :: "nat \<Rightarrow> string" where
  "nat_dec n =
     (if n < 10 then [''0123456789'' ! n]
      else nat_dec (n div 10) @ [''0123456789'' ! (n mod 10)])"

declare nat_dec.simps [simp del]

section \<open>Values and documents\<close>

text \<open>
  A stored or serialised document is a Python dict from field names to values. The values
  are null, booleans, text, integers, lists of text, store identifiers (\<open>ObjectId\<close>, carried as its
  24-digit hexadecimal text) and timestamps (\<open>datetime\<close>, carried as its ISO-8601 text).
\<close>

datatype val =
    VNone
  | VBool bool
  | VStr string
  | VInt int
  | VList "string list"
  | VOid string
  | VDateTime string

type_synonym doc = "string \<rightharpoonup> val"

text \<open>Truth value of a Python object, as tested by \<open>if v\<close>.\<close>

fun truthy :: "val \<Rightarrow> bool" where
  "truthy VNone = False"
| "truthy (VBool b) = b"
| "truthy (VStr s) = (s \<noteq> [])"
| "truthy (VInt i) = (i \<noteq> 0)"
| "truthy (VList xs) = (xs \<noteq> [])"
| "truthy (VOid h) = True"
| "truthy (VDateTime t) = True"

text \<open>
  \<open>str(v)\<close>. An identifier prints as its hexadecimal text and a timestamp with a blank for
  the \<open>T\<close> of its ISO form. The list case quotes each element without the escapes of
  \<open>repr\<close>; no statement below depends on it.
\<close>

fun py_str :: "val \<Rightarrow> string" where
  "py_str VNone = ''None''"
| "py_str (VBool b) = (if b then ''True'' else ''False'')"
| "py_str (VStr s) = s"
| "py_str (VInt i) = (if i < 0 then ''-'' @ nat_dec (nat (- i)) else nat_dec (nat i))"
| "py_str (VList xs) = ''['' @ join '', '' (map (\<lambda>x. [CHR 0x27] @ x @ [CHR 0x27]) xs) @ '']''"
| "py_str (VOid h) = h"
| "py_str (VDateTime t) = map (\<lambda>c. if c = CHR ''T'' then CHR '' '' else c) t"

text \<open>\<open>v.isoformat()\<close> applied to the timestamps among the values of a dict.\<close>

fun isoformat_datetime :: "val \<Rightarrow> val" where
  "isoformat_datetime (VDateTime t) = VStr t"
| "isoformat_datetime v = v"

text \<open>The step \<open>if d.get("_id"): d["id"] = str(d.pop("_id"))\<close> of \<open>as_serializable\<close>.\<close>

definition pop_id :: "doc \<Rightarrow> doc" where
  "pop_id d =
     (case d ''_id'' of
        None \<Rightarrow> d
      | Some v \<Rightarrow> if truthy v then (d(''_id'' := None))(''id'' \<mapsto> VStr (py_str v)) else d)"

definition as_serializable :: "doc \<Rightarrow> doc" where
  "as_serializable doc =
     (if doc = Map.empty then doc
      else (\<lambda>k. map_option isoformat_datetime (pop_id doc k)))"

section \<open>The store\<close>

text \<open>
  The document store holds, for each collection name, its documents in the order in which
  an unsorted \<open>find()\<close> returns them. The handle \<open>db\<close> of the module \<open>database\<close> is a PyMongo
  \<open>Database\<close> (here \<open>Some\<close> of the store), or \<open>None\<close> when no database is configured.
\<close>

type_synonym store = "string \<Rightarrow> doc list"

text \<open>The exceptions that leave the modelled functions.\<close>

datatype error = HTTPException nat string | TypeError | NotImplementedError | WriteError

datatype model_cls = Profile | Project | Certificate | JournalEntry | SkillSnapshot | Milestone

fun cls_name :: "model_cls \<Rightarrow> string" where
  "cls_name Profile = ''Profile''"
| "cls_name Project = ''Project''"
| "cls_name Certificate = ''Certificate''"
| "cls_name JournalEntry = ''JournalEntry''"
| "cls_name SkillSnapshot = ''SkillSnapshot''"
| "cls_name Milestone = ''Milestone''"

definition coll_name :: "model_cls \<Rightarrow> string" where
  "coll_name model_cls = lower (cls_name model_cls)"

text \<open>
  \<open>bool(db)\<close>, the test of \<open>... if db else []\<close>. \<open>None\<close> is false. A \<open>Database\<close> does not
  implement truth-value testing: its \<open>__bool__\<close> raises \<open>NotImplementedError\<close> and asks for
  the comparison \<open>db is not None\<close>, which is the one that \<open>test_database\<close> makes.
\<close>

definition db_bool :: "store option \<Rightarrow> error + bool" where
  "db_bool db = (case db of None \<Rightarrow> Inr False | Some s \<Rightarrow> Inl NotImplementedError)"

text \<open>\<open>list(db[coll_name(cls)].find()) if db else []\<close>: the test comes first.\<close>

definition find_docs :: "store option \<Rightarrow> model_cls \<Rightarrow> error + doc list" where
  "find_docs db model_cls =
     (case db_bool db of
        Inl e \<Rightarrow> Inl e
      | Inr b \<Rightarrow>
          if b then (case db of None \<Rightarrow> Inl TypeError | Some s \<Rightarrow> Inr (s (coll_name model_cls)))
          else Inr [])"

section \<open>Keyword ranking\<close>

text \<open>
  \<open>rank_text\<close> of \<open>ai_query\<close>: the loop over \<open>q.split()\<close> with its counter. The question
  \<open>q\<close> is the already lower-cased one.
\<close>

fun rank_loop :: "string \<Rightarrow> string list \<Rightarrow> nat \<Rightarrow> nat" where
  "rank_loop text [] score = score"
| "rank_loop text (token # rest) score =
     rank_loop text rest
       (if token \<noteq> [] \<and> sublist token (lower text) then score + 1 else score)"

definition rank_text :: "string \<Rightarrow> string \<Rightarrow> nat" where
  "rank_text q text = rank_loop text (py_split q) 0"

text \<open>
  \<open>d.get(k, "")\<close> as an item of \<open>" ".join([...])\<close>: the join raises \<open>TypeError\<close> (here
  \<open>None\<close>) on an item that is not a string.
\<close>

definition str_item :: "doc \<Rightarrow> string \<Rightarrow> string option" where
  "str_item d k =
     (case d k of
        None \<Rightarrow> Some []
      | Some (VStr s) \<Rightarrow> Some s
      | Some _ \<Rightarrow> None)"

text \<open>
  \<open>sep.join(d.get(k, []))\<close>: a list of strings is joined, a string is iterated character
  by character, any other value is not iterable (\<open>TypeError\<close>, here \<open>None\<close>).
\<close>

definition joined :: "string \<Rightarrow> doc \<Rightarrow> string \<Rightarrow> string option" where
  "joined sep d k =
     (case d k of
        None \<Rightarrow> Some (join sep [])
      | Some (VList xs) \<Rightarrow> Some (join sep xs)
      | Some (VStr s) \<Rightarrow> Some (join sep (map (\<lambda>c. [c]) s))
      | Some _ \<Rightarrow> None)"

text \<open>The search text of each kind: the argument of \<open>rank_text\<close> in the three sort keys.\<close>

definition project_text :: "doc \<Rightarrow> string option" where
  "project_text d = do {
     title \<leftarrow> str_item d ''title'';
     description \<leftarrow> str_item d ''description'';
     tech \<leftarrow> joined '' '' d ''tech_stack'';
     highlights \<leftarrow> joined '' '' d ''highlights'';
     Some (join '' '' [title, description, tech, highlights])
   }"

definition certificate_text :: "doc \<Rightarrow> string option" where
  "certificate_text d = do {
     title \<leftarrow> str_item d ''title'';
     organization \<leftarrow> str_item d ''organization'';
     skill \<leftarrow> str_item d ''skill_category'';
     reflection \<leftarrow> str_item d ''reflection'';
     Some (join '' '' [title, organization, skill, reflection])
   }"

definition journal_text :: "doc \<Rightarrow> string option" where
  "journal_text d = do {
     title \<leftarrow> str_item d ''title'';
     content \<leftarrow> str_item d ''content_markdown'';
     tags \<leftarrow> joined '' '' d ''tags'';
     Some (join '' '' [title, content, tags])
   }"

fun search_text :: "model_cls \<Rightarrow> doc \<Rightarrow> string option" where
  "search_text Project d = project_text d"
| "search_text Certificate d = certificate_text d"
| "search_text JournalEntry d = journal_text d"
| "search_text _ d = None"

text \<open>The sort key \<open>lambda d: rank_text(" ".join([...]))\<close> of a kind.\<close>

definition rank_key :: "model_cls \<Rightarrow> string \<Rightarrow> doc \<Rightarrow> nat option" where
  "rank_key model_cls q d = map_option (rank_text q) (search_text model_cls d)"

text \<open>
  \<open>sorted(xs, key=key, reverse=True)\<close>: the key is computed once for every element (an
  exception of the key aborts the sort), and the list is reversed, sorted stably by
  ascending key, and reversed again.
\<close>

definition sorted_reverse :: "('a \<Rightarrow> nat option) \<Rightarrow> 'a list \<Rightarrow> 'a list option" where
  "sorted_reverse key xs =
     (case those (map key xs) of
        None \<Rightarrow> None
      | Some ks \<Rightarrow> Some (map snd (rev (sort_key fst (rev (zip ks xs))))))"

text \<open>
  \<open>sorted([as_serializable(d) for d in docs], key=..., reverse=True)\<close>: the candidates of a
  kind, serialised and ranked.
\<close>

definition ranked :: "doc list \<Rightarrow> model_cls \<Rightarrow> string \<Rightarrow> doc list option" where
  "ranked docs model_cls q = sorted_reverse (rank_key model_cls q) (map as_serializable docs)"

section \<open>The narrative summary\<close>

text \<open>\<open>top.get(k)\<close> inside an f-string: the value, or \<open>None\<close>, printed by \<open>str\<close>.\<close>

definition fmt_get :: "doc \<Rightarrow> string \<Rightarrow> string" where
  "fmt_get d k = py_str (case d k of None \<Rightarrow> VNone | Some v \<Rightarrow> v)"

definition em_dash :: string where
  "em_dash = [CHR 0xE2, CHR 0x80, CHR 0x94]"

definition project_sentence :: "doc \<Rightarrow> string option" where
  "project_sentence top_doc = do {
     tech \<leftarrow> joined '', '' top_doc ''tech_stack'';
     Some (''Top project: '' @ fmt_get top_doc ''title'' @ '' '' @ em_dash @ '' tech: '' @ tech @ ''. '')
   }"

definition certificate_sentence :: "doc \<Rightarrow> string option" where
  "certificate_sentence topc =
     Some (''Recent certificate: '' @ fmt_get topc ''title'' @ '' in ''
           @ fmt_get topc ''skill_category'' @ ''. '')"

text \<open>
  \<open>topj.get('tags', [])[:3]\<close>: the first three elements of a list, the first three
  characters of a string; any other value cannot be sliced (\<open>TypeError\<close>).
\<close>

definition first_tags :: "doc \<Rightarrow> string list option" where
  "first_tags topj =
     (case topj ''tags'' of
        None \<Rightarrow> Some []
      | Some (VList xs) \<Rightarrow> Some (take 3 xs)
      | Some (VStr s) \<Rightarrow> Some (map (\<lambda>c. [c]) (take 3 s))
      | Some _ \<Rightarrow> None)"

definition journal_sentence :: "doc \<Rightarrow> string option" where
  "journal_sentence topj = do {
     tags \<leftarrow> first_tags topj;
     Some (''Learning focus: '' @ join '', '' tags @ ''.'')
   }"

text \<open>\<open>if results.get(key): top = results[key][0]; summary += ...\<close>\<close>

definition sentence_for ::
  "(string \<rightharpoonup> doc list) \<Rightarrow> string \<Rightarrow> (doc \<Rightarrow> string option) \<Rightarrow> string option" where
  "sentence_for res key sentence =
     (case res key of
        Some (top_doc # _) \<Rightarrow> sentence top_doc
      | _ \<Rightarrow> Some [])"

text \<open>
  The three \<open>if results.get(...)\<close> steps that build \<open>summary\<close>; a \<open>TypeError\<close> of a step is
  \<open>None\<close>.
\<close>

definition summary :: "(string \<rightharpoonup> doc list) \<Rightarrow> string option" where
  "summary res = do {
     s1 \<leftarrow> sentence_for res ''projects'' project_sentence;
     s2 \<leftarrow> sentence_for res ''certificates'' certificate_sentence;
     s3 \<leftarrow> sentence_for res ''journal'' journal_sentence;
     Some (s1 @ s2 @ s3)
   }"

section \<open>The query endpoint\<close>

record AIQuery =
  question :: string
  focus :: "string option"

record ai_response =
  answer :: string
  results :: "string \<rightharpoonup> doc list"

text \<open>
  One block \<open>if focus in names: docs = ...; ranked = sorted(...); results[key] = ranked[:5]\<close>.
  An exception of the block leaves \<open>ai_query\<close>.
\<close>

definition search_kind ::
  "store option \<Rightarrow> string \<Rightarrow> string \<Rightarrow> string list \<Rightarrow> model_cls \<Rightarrow> string \<Rightarrow>
   (string \<rightharpoonup> doc list) \<Rightarrow> error + (string \<rightharpoonup> doc list)" where
  "search_kind db q focus_l names model_cls key res =
     (if focus_l \<in> set names then
        (case find_docs db model_cls of
           Inl e \<Rightarrow> Inl e
         | Inr docs \<Rightarrow>
             (case ranked docs model_cls q of
                None \<Rightarrow> Inl TypeError
              | Some r \<Rightarrow> Inr (res(key \<mapsto> take 5 r))))
      else Inr res)"

definition ai_query :: "store option \<Rightarrow> AIQuery \<Rightarrow> error + ai_response" where
  "ai_query db payload =
     (let q = lower (question payload);
          focus_l = lower (case focus payload of None \<Rightarrow> [] | Some f \<Rightarrow> f)
      in case search_kind db q focus_l ['''', ''project'', ''projects''] Project ''projects''
                Map.empty of
           Inl e \<Rightarrow> Inl e
         | Inr r1 \<Rightarrow>
      (case search_kind db q focus_l ['''', ''certificate'', ''certificates''] Certificate
                ''certificates'' r1 of
           Inl e \<Rightarrow> Inl e
         | Inr r2 \<Rightarrow>
      (case search_kind db q focus_l ['''', ''journal''] JournalEntry ''journal'' r2 of
           Inl e \<Rightarrow> Inl e
         | Inr r3 \<Rightarrow>
      (case summary r3 of
           None \<Rightarrow> Inl TypeError
         | Some s \<Rightarrow> Inr \<lparr>answer = strip s, results = r3\<rparr>))))"

section \<open>Generic CRUD helpers\<close>

text \<open>
  \<open>bytes.fromhex(s)\<close>, to which \<open>ObjectId\<close> hands a string: ASCII whitespace (the six
  characters of \<open>Py_ISSPACE\<close>) is skipped in front of a byte, a byte is two hexadecimal digits
  next to each other, and anything else raises \<open>ValueError\<close>. The bytes are carried as their
  lower-case hexadecimal text.
\<close>

definition is_hex :: "char \<Rightarrow> bool" where
  "is_hex c = (c \<in> set ''0123456789abcdefABCDEF'')"

definition Py_ISSPACE :: "char \<Rightarrow> bool" where
  "Py_ISSPACE c = (c \<in> set [CHR 0x09, CHR 0x0A, CHR 0x0B, CHR 0x0C, CHR 0x0D, CHR 0x20])"

fun fromhex :: "string \<Rightarrow> string option" where
  "fromhex [] = Some []"
| "fromhex [c] = (if Py_ISSPACE c then Some [] else None)"
| "fromhex (c # d # cs) =
     (if Py_ISSPACE c then fromhex (d # cs)
      else if is_hex c \<and> is_hex d
        then map_option (\<lambda>bs. lower_char c # lower_char d # bs) (fromhex cs)
      else None)"

text \<open>
  \<open>ObjectId(oid)\<close> on a string: a string of 24 characters that \<open>bytes.fromhex\<close> parses is
  accepted, every other string raises \<open>InvalidId\<close> (here \<open>None\<close>). Two identifiers are equal
  when their bytes are.
\<close>

definition ObjectId :: "string \<Rightarrow> string option" where
  "ObjectId oid = (if length oid = 24 then fromhex oid else None)"

definition to_oid :: "string \<Rightarrow> error + string" where
  "to_oid id_str =
     (case ObjectId id_str of
        Some oid \<Rightarrow> Inr oid
      | None \<Rightarrow> Inl (HTTPException 400 ''Invalid ID''))"

definition has_id :: "string \<Rightarrow> doc \<Rightarrow> bool" where
  "has_id oid d = (d ''_id'' = Some (VOid oid))"

text \<open>\<open>db[collection].find_one({"_id": oid})\<close>: the first document with that identifier.\<close>

definition find_one :: "store \<Rightarrow> string \<Rightarrow> string \<Rightarrow> doc option" where
  "find_one db collection oid = List.find (has_id oid) (db collection)"

fun update_first :: "('a \<Rightarrow> bool) \<Rightarrow> ('a \<Rightarrow> 'a) \<Rightarrow> 'a list \<Rightarrow> 'a list" where
  "update_first P f [] = []"
| "update_first P f (d # ds) = (if P d then f d # ds else d # update_first P f ds)"

fun remove_first :: "('a \<Rightarrow> bool) \<Rightarrow> 'a list \<Rightarrow> 'a list" where
  "remove_first P [] = []"
| "remove_first P (d # ds) = (if P d then ds else d # remove_first P ds)"

text \<open>
  \<open>db[collection].update_one({"_id": oid}, {"$set": fields})\<close>: the first document with
  that identifier gets the given fields assigned, the others of its fields and every other
  document stay; the result is \<open>matched_count\<close> and the store. The store refuses to give a
  matched document another \<open>_id\<close> (\<open>WriteError\<close>: the field is immutable). Field names are
  taken as top-level names of the document; dotted paths and names that begin with \<open>$\<close>,
  which the store reads differently, are kept out by \<open>plain_fields\<close> where a statement depends
  on it.
\<close>

definition update_one :: "store \<Rightarrow> string \<Rightarrow> string \<Rightarrow> doc \<Rightarrow> error + nat \<times> store" where
  "update_one db collection oid new_fields =
     (case List.find (has_id oid) (db collection) of
        None \<Rightarrow> Inr (0, db)
      | Some d \<Rightarrow>
          if new_fields ''_id'' = None \<or> new_fields ''_id'' = Some (VOid oid)
          then Inr (1, db(collection :=
                        update_first (has_id oid) (\<lambda>d. d ++ new_fields) (db collection)))
          else Inl WriteError)"

definition plain_fields :: "string list \<Rightarrow> bool" where
  "plain_fields names =
     list_all (\<lambda>k. k \<noteq> [] \<and> k \<noteq> ''_id'' \<and> hd k \<noteq> CHR ''$'' \<and> CHR ''.'' \<notin> set k) names"

text \<open>\<open>db[collection].delete_one({"_id": oid})\<close>: \<open>deleted_count\<close> and the store.\<close>

definition delete_one :: "store \<Rightarrow> string \<Rightarrow> string \<Rightarrow> nat \<times> store" where
  "delete_one db collection oid =
     (case List.find (has_id oid) (db collection) of
        None \<Rightarrow> (0, db)
      | Some _ \<Rightarrow> (1, db(collection := remove_first (has_id oid) (db collection))))"

text \<open>\<open>as_serializable\<close> on the result of \<open>find_one\<close>: \<open>not doc\<close> holds of \<open>None\<close>.\<close>

definition as_serializable_opt :: "doc option \<Rightarrow> doc option" where
  "as_serializable_opt doc = map_option as_serializable doc"

text \<open>
  \<open>update_item\<close>. The expression \<open>db[collection]\<close> is evaluated first and raises \<open>TypeError\<close>
  on \<open>None\<close>; then the argument \<open>to_oid(id_str)\<close> is evaluated, before \<open>update_one\<close> is
  called; \<open>now\<close> is the value of \<open>datetime.utcnow()\<close>. The helper returns its result, or the
  exception that leaves it, and the handle.
\<close>

definition update_item ::
  "store option \<Rightarrow> model_cls \<Rightarrow> string \<Rightarrow> doc \<Rightarrow> string \<Rightarrow> (error + doc option) \<times> store option" where
  "update_item db model_cls id_str data now =
     (let collection = coll_name model_cls in
      case db of
        None \<Rightarrow> (Inl TypeError, db)
      | Some s \<Rightarrow>
      (case to_oid id_str of
        Inl e \<Rightarrow> (Inl e, db)
      | Inr oid \<Rightarrow>
      (case update_one s collection oid (data(''updated_at'' \<mapsto> VDateTime now)) of
        Inl e \<Rightarrow> (Inl e, db)
      | Inr (matched_count, s') \<Rightarrow>
          if matched_count = 0 then (Inl (HTTPException 404 ''Not found''), Some s')
          else (case to_oid id_str of
                  Inl e \<Rightarrow> (Inl e, Some s')
                | Inr oid' \<Rightarrow>
                    (Inr (as_serializable_opt (find_one s' collection oid')), Some s')))))"

text \<open>\<open>delete_item\<close>, in the same order of evaluation.\<close>

definition delete_item ::
  "store option \<Rightarrow> model_cls \<Rightarrow> string \<Rightarrow> (error + doc) \<times> store option" where
  "delete_item db model_cls id_str =
     (let collection = coll_name model_cls in
      case db of
        None \<Rightarrow> (Inl TypeError, db)
      | Some s \<Rightarrow>
      (case to_oid id_str of
        Inl e \<Rightarrow> (Inl e, db)
      | Inr oid \<Rightarrow>
      (case delete_one s collection oid of
        (deleted_count, s') \<Rightarrow>
          if deleted_count = 0 then (Inl (HTTPException 404 ''Not found''), Some s')
          else (Inr [''deleted'' \<mapsto> VBool True], Some s'))))"

subsection \<open>The database helper module\<close>

text \<open>
  The module \<open>database\<close> (\<open>create_document\<close>, \<open>get_documents\<close>) is not among the sources.
\<close>

text \<open>
  Modelled from the spec: \<open>create_document\<close> is missing. It inserts a new document for the
  record kind, made of the fields of the model instance, the identifier the store assigns
  (\<open>new_id\<close>) and the creation and update timestamps (\<open>now\<close>), and returns the identifier
  as text. The new document comes last in the collection's order.
\<close>

definition create_document :: "store \<Rightarrow> string \<Rightarrow> doc \<Rightarrow> string \<Rightarrow> string \<Rightarrow> string \<times> store" where
  "create_document db collection_name data new_id now =
     (new_id,
      db(collection_name := db collection_name @
           [data(''_id'' \<mapsto> VOid new_id, ''created_at'' \<mapsto> VDateTime now,
                 ''updated_at'' \<mapsto> VDateTime now)]))"

text \<open>
  The filters that the endpoints build: \<open>{"$regex": v, "$options": o}\<close> and
  \<open>{"$elemMatch": c}\<close>, one per field name.
\<close>

datatype cond = Regex string string | ElemMatch cond

type_synonym filter_dict = "(string \<times> cond) list"

text \<open>
  Modelled from the spec: the store's evaluation of a filter is missing. A scalar-field
  filter is a case-insensitive substring match, a list-field filter matches if any element
  of the list matches, and the filters of several fields combine with logical and. The
  source passes the value as a regular expression; the substring reading is that of a
  value without regular-expression metacharacters (\<open>regex_literal\<close>), and only such
  values are covered by the statements below.
\<close>

definition regex_search :: "string \<Rightarrow> string \<Rightarrow> string \<Rightarrow> bool" where
  "regex_search pattern opts s =
     (if CHR ''i'' \<in> set opts then sublist (lower pattern) (lower s) else sublist pattern s)"

definition regex_literal :: "string \<Rightarrow> bool" where
  "regex_literal pattern =
     list_all (\<lambda>c. c \<notin> set [CHR 0x5C, CHR ''^'', CHR ''$'', CHR ''.'', CHR ''|'', CHR ''?'',
                              CHR ''*'', CHR ''+'', CHR ''('', CHR '')'', CHR ''['', CHR '']'',
                              CHR ''{'', CHR ''}'']) pattern"

fun cond_holds :: "cond \<Rightarrow> val option \<Rightarrow> bool" where
  "cond_holds (Regex pattern opts) (Some (VStr s)) = regex_search pattern opts s"
| "cond_holds (Regex pattern opts) (Some (VList xs)) = list_ex (regex_search pattern opts) xs"
| "cond_holds (ElemMatch c) (Some (VList xs)) = list_ex (\<lambda>x. cond_holds c (Some (VStr x))) xs"
| "cond_holds c v = False"

definition matches :: "filter_dict \<Rightarrow> doc \<Rightarrow> bool" where
  "matches filter_dict d = list_all (\<lambda>(k, c). cond_holds c (d k)) filter_dict"

text \<open>
  Modelled from the spec: \<open>get_documents\<close> is missing. It returns the documents of the
  collection that match the filter, in the store's order, which is not sorted, and at most
  \<open>limit\<close> of them when a limit is given.
\<close>

definition get_documents :: "store \<Rightarrow> string \<Rightarrow> filter_dict \<Rightarrow> nat option \<Rightarrow> doc list" where
  "get_documents db collection_name filter_dict limit =
     (let docs = filter (matches filter_dict) (db collection_name)
      in case limit of None \<Rightarrow> docs | Some n \<Rightarrow> take n docs)"

text \<open>\<open>list_items\<close>; \<open>filters or {}\<close> is the empty filter for \<open>None\<close>.\<close>

definition list_items :: "store \<Rightarrow> model_cls \<Rightarrow> nat option \<Rightarrow> filter_dict option \<Rightarrow> doc list" where
  "list_items db model_cls limit filters =
     (let collection = coll_name model_cls;
          docs = get_documents db collection (case filters of None \<Rightarrow> [] | Some f \<Rightarrow> f) limit
      in map as_serializable docs)"

section \<open>Endpoints over the helpers\<close>

text \<open>\<open>GET /profile\<close>: \<open>docs[0] if docs else {}\<close>.\<close>

definition get_profile :: "store \<Rightarrow> doc" where
  "get_profile db =
     (case list_items db Profile (Some 1) None of
        [] \<Rightarrow> Map.empty
      | d # _ \<Rightarrow> d)"

text \<open>\<open>if tag:\<close> on an optional string: present and not empty.\<close>

fun given :: "string option \<Rightarrow> bool" where
  "given None = False"
| "given (Some v) = (v \<noteq> [])"

text \<open>\<open>GET /projects\<close>: the filter is built key by key, then the projects are listed.\<close>

definition projects_filter :: "string option \<Rightarrow> string option \<Rightarrow> filter_dict" where
  "projects_filter tag tech =
     (if given tag then [(''highlights'', ElemMatch (Regex (the tag) ''i''))] else [])
     @ (if given tech then [(''tech_stack'', ElemMatch (Regex (the tech) ''i''))] else [])"

definition get_projects :: "store \<Rightarrow> string option \<Rightarrow> string option \<Rightarrow> doc list" where
  "get_projects db tag tech = list_items db Project None (Some (projects_filter tag tech))"

section \<open>Record kinds and the ranking, as specified\<close>

text \<open>
  The schemas give the searchable fields their types: text fields hold a string, list
  fields a list of strings. A field may be absent, as the lookups of \<open>ai_query\<close> default it.
\<close>

definition text_field :: "doc \<Rightarrow> string \<Rightarrow> string" where
  "text_field d k = (case d k of Some (VStr s) \<Rightarrow> s | _ \<Rightarrow> [])"

definition list_field :: "doc \<Rightarrow> string \<Rightarrow> string list" where
  "list_field d k = (case d k of Some (VList xs) \<Rightarrow> xs | _ \<Rightarrow> [])"

definition is_text :: "doc \<Rightarrow> string \<Rightarrow> bool" where
  "is_text d k = (case d k of None \<Rightarrow> True | Some (VStr s) \<Rightarrow> True | Some _ \<Rightarrow> False)"

definition is_list :: "doc \<Rightarrow> string \<Rightarrow> bool" where
  "is_list d k = (case d k of None \<Rightarrow> True | Some (VList xs) \<Rightarrow> True | Some _ \<Rightarrow> False)"

fun conforms :: "model_cls \<Rightarrow> doc \<Rightarrow> bool" where
  "conforms Project d =
     (is_text d ''title'' \<and> is_text d ''description'' \<and> is_list d ''tech_stack''
      \<and> is_list d ''highlights'')"
| "conforms Certificate d =
     (is_text d ''title'' \<and> is_text d ''organization'' \<and> is_text d ''skill_category''
      \<and> is_text d ''reflection'')"
| "conforms JournalEntry d =
     (is_text d ''title'' \<and> is_text d ''content_markdown'' \<and> is_list d ''tags'')"
| "conforms _ d = True"

definition spec_project_text :: "doc \<Rightarrow> string" where
  "spec_project_text d =
     join '' '' [text_field d ''title'', text_field d ''description'',
                 join '' '' (list_field d ''tech_stack''), join '' '' (list_field d ''highlights'')]"

definition spec_score :: "string \<Rightarrow> string \<Rightarrow> nat" where
  "spec_score quest text =
     length (filter (\<lambda>token. sublist token (lower text)) (py_split (lower quest)))"

text \<open>
  The text operations above are those of Python on ASCII text; \<open>ascii\<close> marks the strings
  for which the statements on scores are made.
\<close>

definition ascii :: "string \<Rightarrow> bool" where
  "ascii s = list_all (\<lambda>c. \<not> digit7 c) s"

definition ascii_record :: "model_cls \<Rightarrow> doc \<Rightarrow> bool" where
  "ascii_record cls d = (case search_text cls d of None \<Rightarrow> False | Some t \<Rightarrow> ascii t)"

definition score :: "model_cls \<Rightarrow> string \<Rightarrow> doc \<Rightarrow> nat" where
  "score cls q d = the (rank_key cls q d)"

definition ranking :: "doc list \<Rightarrow> model_cls \<Rightarrow> string \<Rightarrow> doc list" where
  "ranking docs cls q = rev (sort_key (score cls q) (rev (map as_serializable docs)))"

section \<open>The query response, as specified\<close>

text \<open>
  The kinds that a focus selects, the key of each kind in \<open>results\<close>, the expected
  \<open>results\<close> mapping, and the sentences of the summary without their separating blanks.
\<close>

definition kind_names :: "model_cls \<Rightarrow> string list" where
  "kind_names cls =
     (case cls of
        Project \<Rightarrow> [''project'', ''projects'']
      | Certificate \<Rightarrow> [''certificate'', ''certificates'']
      | JournalEntry \<Rightarrow> [''journal'']
      | _ \<Rightarrow> [])"

definition focus_text :: "string option \<Rightarrow> string" where
  "focus_text fo = lower (case fo of None \<Rightarrow> [] | Some f \<Rightarrow> f)"

definition searched :: "string option \<Rightarrow> model_cls \<Rightarrow> bool" where
  "searched fo cls =
     (cls \<in> {Project, Certificate, JournalEntry}
      \<and> (focus_text fo = [] \<or> focus_text fo \<in> set (kind_names cls)))"

definition result_key :: "model_cls \<Rightarrow> string" where
  "result_key cls =
     (case cls of
        Project \<Rightarrow> ''projects''
      | Certificate \<Rightarrow> ''certificates''
      | JournalEntry \<Rightarrow> ''journal''
      | _ \<Rightarrow> [])"

definition spec_keys :: "string option \<Rightarrow> string set" where
  "spec_keys fo = set (map result_key (filter (searched fo) [Project, Certificate, JournalEntry]))"

definition empty_results :: "string option \<Rightarrow> string \<rightharpoonup> doc list" where
  "empty_results fo = (\<lambda>k. if k \<in> spec_keys fo then Some [] else None)"

definition spec_project_sentence :: "doc \<Rightarrow> string" where
  "spec_project_sentence d =
     ''Top project: '' @ fmt_get d ''title'' @ '' '' @ em_dash @ '' tech: ''
     @ join '', '' (list_field d ''tech_stack'') @ ''.''"

definition spec_certificate_sentence :: "doc \<Rightarrow> string" where
  "spec_certificate_sentence d =
     ''Recent certificate: '' @ fmt_get d ''title'' @ '' in '' @ fmt_get d ''skill_category'' @ ''.''"

definition spec_journal_sentence :: "doc \<Rightarrow> string" where
  "spec_journal_sentence d =
     ''Learning focus: '' @ join '', '' (take 3 (list_field d ''tags'')) @ ''.''"

definition emitted :: "(string \<rightharpoonup> doc list) \<Rightarrow> string \<Rightarrow> (doc \<Rightarrow> string) \<Rightarrow> string list" where
  "emitted res key sentence = (case res key of Some (d # _) \<Rightarrow> [sentence d] | _ \<Rightarrow> [])"

definition spec_answer :: "(string \<rightharpoonup> doc list) \<Rightarrow> string" where
  "spec_answer res =
     join '' '' (emitted res ''projects'' spec_project_sentence
                 @ emitted res ''certificates'' spec_certificate_sentence
                 @ emitted res ''journal'' spec_journal_sentence)"

definition solid :: "string \<Rightarrow> bool" where
  "solid s = (s \<noteq> [] \<and> \<not> is_space (hd s) \<and> \<not> is_space (last s))"

definition line_of :: "(string \<rightharpoonup> doc list) \<Rightarrow> string \<Rightarrow> (doc \<Rightarrow> string) \<Rightarrow> string" where
  "line_of res key sentence = (case res key of Some (d # _) \<Rightarrow> sentence d | _ \<Rightarrow> [])"

section \<open>Example data\<close>

definition ex_store :: store where
  "ex_store =
     (\<lambda>c. if c = ''project''
          then [[''_id'' \<mapsto> VOid ''0123456789abcdef01234567'', ''title'' \<mapsto> VStr ''Game Engine'',
                 ''tech_stack'' \<mapsto> VList [''C++'']]]
          else [])"

definition ex_data_pipeline :: doc where
  "ex_data_pipeline =
     [''title'' \<mapsto> VStr ''Data Pipeline'', ''tech_stack'' \<mapsto> VList [''Python'', ''SQL'']]"

definition ex_game_engine :: doc where
  "ex_game_engine = [''title'' \<mapsto> VStr ''Game Engine'', ''tech_stack'' \<mapsto> VList [''C++'']]"

definition ex_certificate :: doc where
  "ex_certificate =
     [''title'' \<mapsto> VStr ''Cloud Practitioner'', ''organization'' \<mapsto> VStr ''AWS'',
      ''skill_category'' \<mapsto> VStr ''Cloud'']"

definition two_projects :: "doc list \<Rightarrow> store" where
  "two_projects ps = (\<lambda>c. if c = ''project'' then ps else [])"

definition ex_journal :: doc where
  "ex_journal =
     [''title'' \<mapsto> VStr ''Week 12'', ''content_markdown'' \<mapsto> VStr ''Notes'',
      ''tags'' \<mapsto> VList [''rust'', ''wasm'', ''perf'', ''ci'']]"


section \<open>Text and serialisation lemmas\<close>

lemma split_from_nonempty: "t \<in> set (split_from cur s) \<Longrightarrow> t \<noteq> []"
  by (induction s arbitrary: cur) (auto split: if_splits)

lemma py_split_nonempty: "t \<in> set (py_split s) \<Longrightarrow> t \<noteq> []"
  unfolding py_split_def by (rule split_from_nonempty)

lemma rank_loop_count:
  "\<forall>t \<in> set ts. t \<noteq> [] \<Longrightarrow>
   rank_loop text ts n = n + length (filter (\<lambda>t. sublist t (lower text)) ts)"
  by (induction ts arbitrary: n) auto

lemma rank_text_spec: "rank_text (lower quest) text = spec_score quest text"
  unfolding rank_text_def spec_score_def
  using rank_loop_count[of "py_split (lower quest)" "text" 0] py_split_nonempty by auto

lemma as_serializable_other:
  "k \<noteq> ''_id'' \<Longrightarrow> k \<noteq> ''id'' \<Longrightarrow> as_serializable d k = map_option isoformat_datetime (d k)"
  by (auto simp: as_serializable_def pop_id_def split: option.splits)

lemma is_text_serial:
  "k \<noteq> ''_id'' \<Longrightarrow> k \<noteq> ''id'' \<Longrightarrow> is_text d k \<Longrightarrow>
   str_item (as_serializable d) k = Some (text_field d k)"
  by (auto simp: as_serializable_other is_text_def str_item_def text_field_def
           split: option.splits val.splits)

lemma is_list_serial:
  "k \<noteq> ''_id'' \<Longrightarrow> k \<noteq> ''id'' \<Longrightarrow> is_list d k \<Longrightarrow>
   joined sep (as_serializable d) k = Some (join sep (list_field d k))"
  by (auto simp: as_serializable_other is_list_def joined_def list_field_def
           split: option.splits val.splits)

lemma project_text_conforms:
  "conforms Project d \<Longrightarrow> project_text (as_serializable d) = Some (spec_project_text d)"
  by (simp add: project_text_def spec_project_text_def is_text_serial is_list_serial)

section \<open>Sorting lemmas\<close>

lemma insort_key_fst_map:
  "insort_key fst (g x, x) (map (\<lambda>y. (g y, y)) ys) = map (\<lambda>y. (g y, y)) (insort_key g x ys)"
  by (induction ys) auto

lemma sort_key_fst_map:
  "sort_key fst (map (\<lambda>y. (g y, y)) ys) = map (\<lambda>y. (g y, y)) (sort_key g ys)"
  by (induction ys) (auto simp: insort_key_fst_map)

lemma those_map_Some:
  "\<forall>x \<in> set xs. key x \<noteq> None \<Longrightarrow> those (map key xs) = Some (map (\<lambda>x. the (key x)) xs)"
  by (induction xs) auto

lemma those_map_None:
  "x \<in> set xs \<Longrightarrow> key x = None \<Longrightarrow> those (map key xs) = None"
  by (induction xs) (auto split: option.splits)

lemma zip_map_self: "zip (map g xs) xs = map (\<lambda>y. (g y, y)) xs"
  by (induction xs) auto

lemma sorted_reverse_Some:
  assumes "\<forall>x \<in> set xs. key x \<noteq> None"
  shows "sorted_reverse key xs = Some (rev (sort_key (\<lambda>x. the (key x)) (rev xs)))"
proof -
  let ?f = "\<lambda>y. (the (key y), y)"
  have "sort_key fst (rev (map ?f xs)) = map ?f (sort_key (\<lambda>x. the (key x)) (rev xs))"
    by (simp add: rev_map sort_key_fst_map)
  then have "map snd (rev (sort_key fst (rev (map ?f xs))))
        = rev (sort_key (\<lambda>x. the (key x)) (rev xs))"
    by (simp add: rev_map comp_def)
  then show ?thesis
    using assms by (simp add: sorted_reverse_def those_map_Some zip_map_self)
qed

lemma sorted_reverse_None:
  "x \<in> set xs \<Longrightarrow> key x = None \<Longrightarrow> sorted_reverse key xs = None"
  by (simp add: sorted_reverse_def those_map_None)

lemma sorted_reverse_defined:
  assumes "sorted_reverse key xs = Some r" and "x \<in> set xs"
  shows "key x \<noteq> None"
proof
  assume "key x = None"
  with assms(2) have "sorted_reverse key xs = None" by (rule sorted_reverse_None)
  with assms(1) show False by simp
qed

lemma desc_mset: "mset (rev (sort_key g (rev xs))) = mset xs"
  by simp

lemma desc_sorted: "sorted (rev (map g (rev (sort_key g (rev xs)))))"
  by (simp add: rev_map[symmetric] sorted_sort_key)

lemma desc_stable:
  "filter (\<lambda>x. g x = k) (rev (sort_key g (rev xs))) = filter (\<lambda>x. g x = k) xs"
  by (simp add: rev_filter[symmetric] sort_key_stable)

lemma sort_key_all_equal:
  assumes "\<forall>x \<in> set xs. g x = c"
  shows "sort_key g xs = xs"
proof -
  have "filter (\<lambda>x. g x = c) (sort_key g xs) = filter (\<lambda>x. g x = c) xs"
    by (rule sort_key_stable)
  moreover have "filter (\<lambda>x. g x = c) (sort_key g xs) = sort_key g xs"
    using assms by (simp add: filter_id_conv)
  moreover have "filter (\<lambda>x. g x = c) xs = xs"
    using assms by (simp add: filter_id_conv)
  ultimately show ?thesis by simp
qed

lemma desc_all_equal:
  assumes "\<forall>x \<in> set xs. g x = c"
  shows "rev (sort_key g (rev xs)) = xs"
proof -
  have "\<forall>x \<in> set (rev xs). g x = c" using assms by simp
  then have "sort_key g (rev xs) = rev xs" by (rule sort_key_all_equal)
  then show ?thesis by simp
qed

section \<open>Ranking lemmas\<close>

lemma is_text_serial': "k \<noteq> ''_id'' \<Longrightarrow> k \<noteq> ''id'' \<Longrightarrow> is_text d k \<Longrightarrow> is_text (as_serializable d) k"
  by (auto simp: as_serializable_other is_text_def split: option.splits val.splits)

lemma is_list_serial': "k \<noteq> ''_id'' \<Longrightarrow> k \<noteq> ''id'' \<Longrightarrow> is_list d k \<Longrightarrow> is_list (as_serializable d) k"
  by (auto simp: as_serializable_other is_list_def split: option.splits val.splits)

lemma conforms_serial: "conforms cls d \<Longrightarrow> conforms cls (as_serializable d)"
  by (cases cls) (simp_all add: is_text_serial' is_list_serial')

lemma str_item_text: "is_text d k \<Longrightarrow> str_item d k = Some (text_field d k)"
  by (auto simp: is_text_def str_item_def text_field_def split: option.splits val.splits)

lemma joined_list: "is_list d k \<Longrightarrow> joined sep d k = Some (join sep (list_field d k))"
  by (auto simp: is_list_def joined_def list_field_def split: option.splits val.splits)

lemma search_text_conforms:
  "cls \<in> {Project, Certificate, JournalEntry} \<Longrightarrow> conforms cls d \<Longrightarrow> search_text cls d \<noteq> None"
  by (auto simp: project_text_def certificate_text_def journal_text_def str_item_text joined_list)

lemma rank_key_conforms:
  "cls \<in> {Project, Certificate, JournalEntry} \<Longrightarrow> conforms cls d \<Longrightarrow> rank_key cls q d \<noteq> None"
  using search_text_conforms[of cls d] by (simp add: rank_key_def)

lemma ranked_ok:
  assumes "list_all (conforms cls) docs" and "cls \<in> {Project, Certificate, JournalEntry}"
  shows "ranked docs cls q = Some (ranking docs cls q)"
proof -
  have "rank_key cls q x \<noteq> None" if "x \<in> set (map as_serializable docs)" for x
  proof -
    from that obtain d where d: "d \<in> set docs" and x: "x = as_serializable d"
      by auto
    from assms(1) d have "conforms cls d" by (simp add: list_all_iff)
    then have "conforms cls x" unfolding x by (rule conforms_serial)
    with assms(2) show ?thesis by (rule rank_key_conforms)
  qed
  then have "\<forall>x \<in> set (map as_serializable docs). rank_key cls q x \<noteq> None"
    by blast
  then show ?thesis
    unfolding ranked_def ranking_def score_def by (rule sorted_reverse_Some)
qed

lemma ranking_set: "set (ranking docs cls q) = as_serializable ` set docs"
  by (simp add: ranking_def)

section \<open>Lemmas on the query endpoint\<close>

lemma searched_simps:
  "searched fo Project \<longleftrightarrow> focus_text fo \<in> set ['''', ''project'', ''projects'']"
  "searched fo Certificate \<longleftrightarrow> focus_text fo \<in> set ['''', ''certificate'', ''certificates'']"
  "searched fo JournalEntry \<longleftrightarrow> focus_text fo \<in> set ['''', ''journal'']"
  by (auto simp: searched_def kind_names_def)

lemma ranked_Nil: "ranked [] cls q = Some []"
  by (simp add: ranked_def sorted_reverse_def)

lemma search_kind_None:
  "search_kind None q f names cls key res = Inr (if f \<in> set names then res(key \<mapsto> []) else res)"
  by (simp add: search_kind_def find_docs_def db_bool_def ranked_Nil)

lemma search_kind_Some:
  "search_kind (Some s) q f names cls key res
   = (if f \<in> set names then Inl NotImplementedError else Inr res)"
  by (simp add: search_kind_def find_docs_def db_bool_def)

lemma summary_no_records:
  assumes "\<And>k ds. res k = Some ds \<Longrightarrow> ds = []"
  shows "summary res = Some []"
proof -
  have "sentence_for res k f = Some []" for k f
    using assms[of k] by (auto simp: sentence_for_def split: option.splits list.splits)
  then show ?thesis by (simp add: summary_def)
qed

lemma strip_Nil: "strip [] = []"
  by (simp add: strip_def)

lemma spec_keys_iff:
  "k \<in> spec_keys fo \<longleftrightarrow>
     (k = ''projects'' \<and> searched fo Project) \<or> (k = ''certificates'' \<and> searched fo Certificate)
     \<or> (k = ''journal'' \<and> searched fo JournalEntry)"
  by (auto simp: spec_keys_def result_key_def)

lemma ai_query_None: "ai_query None p = Inr \<lparr>answer = [], results = empty_results (focus p)\<rparr>"
proof -
  let ?f = "focus_text (focus p)"
  let ?r1 = "if ?f \<in> set ['''', ''project'', ''projects''] then Map.empty(''projects'' \<mapsto> [])
             else Map.empty"
  let ?r2 = "if ?f \<in> set ['''', ''certificate'', ''certificates'']
             then ?r1(''certificates'' \<mapsto> []) else ?r1"
  let ?r3 = "if ?f \<in> set ['''', ''journal''] then ?r2(''journal'' \<mapsto> []) else ?r2"
  have R: "?r3 = empty_results (focus p)"
    by (rule ext) (simp add: empty_results_def spec_keys_iff searched_simps)
  have S: "summary (empty_results (focus p)) = Some []"
    by (rule summary_no_records) (simp add: empty_results_def split: if_splits)
  have "ai_query None p
        = (case summary ?r3 of None \<Rightarrow> Inl TypeError
           | Some s \<Rightarrow> Inr \<lparr>answer = strip s, results = ?r3\<rparr>)"
    unfolding ai_query_def Let_def focus_text_def[symmetric] search_kind_None
    by (simp only: sum.case)
  then show ?thesis
    unfolding R S by (simp add: strip_Nil)
qed

lemma summary_empty: "summary Map.empty = Some []"
  by (rule summary_no_records) simp

lemma ai_query_Some:
  "ai_query (Some s) p
   = (if spec_keys (focus p) = {} then Inr \<lparr>answer = [], results = Map.empty\<rparr>
      else Inl NotImplementedError)"
proof -
  let ?f = "focus_text (focus p)"
  have K: "spec_keys (focus p) = {} \<longleftrightarrow>
        ?f \<notin> set ['''', ''project'', ''projects''] \<and> ?f \<notin> set ['''', ''certificate'', ''certificates'']
        \<and> ?f \<notin> set ['''', ''journal'']"
    using spec_keys_iff[of _ "focus p"] unfolding searched_simps by blast
  show ?thesis
    unfolding K ai_query_def Let_def focus_text_def[symmetric] search_kind_Some
    by (simp add: summary_empty strip_Nil)
qed

lemma strip_solid:
  assumes "solid s"
  shows "strip s = s"
proof -
  have 1: "dropWhile is_space s = s"
    using assms by (simp add: solid_def dropWhile_eq_self_iff)
  have 2: "dropWhile is_space (rev s) = rev s"
    using assms by (simp add: solid_def dropWhile_eq_self_iff hd_rev)
  show ?thesis
    by (simp add: strip_def 1 2)
qed

lemma strip_solid_space:
  assumes "solid s"
  shows "strip (s @ '' '') = s"
proof -
  have 1: "dropWhile is_space (s @ '' '') = s @ '' ''"
    using assms by (cases s) (simp_all add: solid_def)
  have 2: "dropWhile is_space (rev s) = rev s"
    using assms by (simp add: solid_def dropWhile_eq_self_iff hd_rev)
  show ?thesis
    by (simp add: strip_def 1 2 is_space_def)
qed

lemma solid_between: "solid a \<Longrightarrow> solid b \<Longrightarrow> solid (a @ x @ b)"
  by (auto simp: solid_def)

lemma solid_sentences:
  "solid (spec_project_sentence d)" "solid (spec_certificate_sentence d)"
  "solid (spec_journal_sentence d)"
  by (simp_all add: solid_def spec_project_sentence_def spec_certificate_sentence_def
        spec_journal_sentence_def is_space_def)

lemma project_sentence_ok:
  "is_list d ''tech_stack'' \<Longrightarrow> project_sentence d = Some (spec_project_sentence d @ '' '')"
  by (simp add: project_sentence_def spec_project_sentence_def joined_list)

lemma certificate_sentence_ok:
  "certificate_sentence d = Some (spec_certificate_sentence d @ '' '')"
  by (simp add: certificate_sentence_def spec_certificate_sentence_def)

lemma journal_sentence_ok:
  "is_list d ''tags'' \<Longrightarrow> journal_sentence d = Some (spec_journal_sentence d)"
  by (auto simp: journal_sentence_def spec_journal_sentence_def first_tags_def is_list_def
        list_field_def split: option.splits val.splits)

lemma strip_answer:
  assumes "p = [] \<or> solid p" "c = [] \<or> solid c" "j = [] \<or> solid j"
  shows "strip ((if p = [] then [] else p @ '' '') @ (if c = [] then [] else c @ '' '') @ j)
         = join '' '' (filter (\<lambda>s. s \<noteq> []) [p, c, j])"
proof -
  have sp: "solid a \<Longrightarrow> solid b \<Longrightarrow> strip (a @ CHR '' '' # b) = a @ CHR '' '' # b" for a b
    using strip_solid[OF solid_between[of a b "'' ''"]] by simp
  have sp2: "solid a \<Longrightarrow> solid b \<Longrightarrow> strip (a @ CHR '' '' # b @ '' '') = a @ CHR '' '' # b" for a b
    using strip_solid_space[OF solid_between[of a b "'' ''"]] by simp
  have sp3: "solid a \<Longrightarrow> solid b \<Longrightarrow> solid e \<Longrightarrow>
      strip (a @ CHR '' '' # b @ CHR '' '' # e) = a @ CHR '' '' # b @ CHR '' '' # e" for a b e
    using strip_solid[OF solid_between[of a e "'' '' @ b @ '' ''"]] by simp
  show ?thesis
    using assms by (auto simp: strip_Nil strip_solid strip_solid_space sp sp2 sp3 solid_def)
qed

lemma take_head_in_set: "take n xs = d # ds \<Longrightarrow> d \<in> set xs"
  by (metis in_set_takeD list.set_intros(1))

lemma sentence_for_line:
  assumes "\<And>d ds. res key = Some (d # ds) \<Longrightarrow> sentence d = Some (line d @ tail)"
    and "\<And>d. line d \<noteq> []"
  shows "sentence_for res key sentence
         = Some (if line_of res key line = [] then [] else line_of res key line @ tail)"
  using assms by (auto simp: sentence_for_def line_of_def split: option.splits list.splits)

lemma sentences_nonempty:
  "spec_project_sentence d \<noteq> []" "spec_certificate_sentence d \<noteq> []"
  "spec_journal_sentence d \<noteq> []"
  using solid_sentences[of d] by (auto simp: solid_def)

lemma line_of_solid:
  "(\<And>d. solid (line d)) \<Longrightarrow> line_of res key line = [] \<or> solid (line_of res key line)"
  by (auto simp: line_of_def split: option.splits list.splits)

lemma spec_answer_lines:
  "spec_answer res
   = join '' '' (filter (\<lambda>s. s \<noteq> [])
       [line_of res ''projects'' spec_project_sentence,
        line_of res ''certificates'' spec_certificate_sentence,
        line_of res ''journal'' spec_journal_sentence])"
  by (simp add: spec_answer_def emitted_def line_of_def sentences_nonempty
        split: option.splits list.splits)

lemma summary_ok:
  assumes "\<And>d ds. res ''projects'' = Some (d # ds) \<Longrightarrow> is_list d ''tech_stack''"
    and "\<And>d ds. res ''journal'' = Some (d # ds) \<Longrightarrow> is_list d ''tags''"
  shows "\<exists>s. summary res = Some s \<and> strip s = spec_answer res"
proof -
  let ?P = "line_of res ''projects'' spec_project_sentence"
  let ?C = "line_of res ''certificates'' spec_certificate_sentence"
  let ?J = "line_of res ''journal'' spec_journal_sentence"
  have s1: "sentence_for res ''projects'' project_sentence
            = Some (if ?P = [] then [] else ?P @ '' '')"
  proof (rule sentence_for_line)
    fix d ds assume "res ''projects'' = Some (d # ds)"
    then have "is_list d ''tech_stack''" by (rule assms(1))
    then show "project_sentence d = Some (spec_project_sentence d @ '' '')"
      by (simp add: project_sentence_ok)
  qed (rule sentences_nonempty)
  have s2: "sentence_for res ''certificates'' certificate_sentence
            = Some (if ?C = [] then [] else ?C @ '' '')"
    by (rule sentence_for_line) (rule certificate_sentence_ok, rule sentences_nonempty)
  have s3: "sentence_for res ''journal'' journal_sentence = Some ?J"
  proof -
    have "sentence_for res ''journal'' journal_sentence
            = Some (if ?J = [] then [] else ?J @ [])"
    proof (rule sentence_for_line)
      fix d ds assume "res ''journal'' = Some (d # ds)"
      then have "is_list d ''tags''" by (rule assms(2))
      then show "journal_sentence d = Some (spec_journal_sentence d @ [])"
        by (simp add: journal_sentence_ok)
    qed (rule sentences_nonempty)
    then show ?thesis by simp
  qed
  have strip: "strip ((if ?P = [] then [] else ?P @ '' '') @ (if ?C = [] then [] else ?C @ '' '') @ ?J)
               = spec_answer res"
    unfolding spec_answer_lines
    by (rule strip_answer) (rule line_of_solid, rule solid_sentences)+
  have "summary res
        = Some ((if ?P = [] then [] else ?P @ '' '') @ (if ?C = [] then [] else ?C @ '' '') @ ?J)"
    unfolding summary_def s1 s2 s3 by simp
  with strip show ?thesis by simp
qed

lemma ai_query_returns:
  assumes "ai_query db p = Inr resp"
  shows "answer resp = []" and "results resp k = Some ds \<Longrightarrow> ds = []"
proof -
  have "answer resp = [] \<and> (results resp k = Some ds \<longrightarrow> ds = [])"
  proof (cases db)
    case None
    with assms show ?thesis by (auto simp: ai_query_None empty_results_def split: if_splits)
  next
    case (Some s)
    with assms show ?thesis by (auto simp: ai_query_Some split: if_splits)
  qed
  then show "answer resp = []" and "results resp k = Some ds \<Longrightarrow> ds = []" by simp_all
qed

lemma ai_query_raises:
  "db \<noteq> None \<Longrightarrow> searched (focus p) cls \<Longrightarrow> cls \<in> {Project, Certificate, JournalEntry} \<Longrightarrow>
   ai_query db p = Inl NotImplementedError"
  by (cases db) (auto simp: ai_query_Some spec_keys_def)

lemma sorted_reverse_result:
  assumes "sorted_reverse key xs = Some r"
  shows "r = rev (sort_key (\<lambda>x. the (key x)) (rev xs))"
proof -
  have "\<forall>x \<in> set xs. key x \<noteq> None"
    using sorted_reverse_defined[OF assms] by blast
  then have "sorted_reverse key xs = Some (rev (sort_key (\<lambda>x. the (key x)) (rev xs)))"
    by (rule sorted_reverse_Some)
  with assms show ?thesis by simp
qed

lemma ranked_result:
  assumes "ranked docs cls q = Some r"
  shows "r = ranking docs cls q"
  using sorted_reverse_result[OF assms[unfolded ranked_def]]
  unfolding ranking_def score_def .

lemma ranked_defined:
  assumes "ranked docs cls q = Some r" and "d \<in> set (map as_serializable docs)"
  shows "rank_key cls q d \<noteq> None"
  using sorted_reverse_defined[OF assms(1)[unfolded ranked_def] assms(2)] .

lemma rank_key_no_tokens:
  "py_split q = [] \<Longrightarrow> rank_key cls q d = Some n \<Longrightarrow> n = 0"
  by (auto simp: rank_key_def rank_text_def)

lemma ranking_props:
  "mset (ranking docs cls q) = mset (map as_serializable docs)"
  "sorted (rev (map (score cls q) (ranking docs cls q)))"
  "filter (\<lambda>d. score cls q d = k) (ranking docs cls q)
   = filter (\<lambda>d. score cls q d = k) (map as_serializable docs)"
  unfolding ranking_def by (rule desc_mset desc_sorted desc_stable)+

lemma ex_serial:
  "as_serializable ex_data_pipeline = ex_data_pipeline"
  "as_serializable ex_game_engine = ex_game_engine"
  "as_serializable ex_certificate = ex_certificate"
  by (rule ext, simp add: as_serializable_def pop_id_def ex_data_pipeline_def
        ex_game_engine_def ex_certificate_def)+

lemma ex_conforms:
  "conforms Project ex_data_pipeline" "conforms Project ex_game_engine"
  "conforms Certificate ex_certificate"
  by (simp_all add: is_text_def is_list_def ex_data_pipeline_def ex_game_engine_def
        ex_certificate_def)

lemma lower_examples:
  "lower ''python data'' = ''python data''" "lower ''cloud'' = ''cloud''" "lower ''  '' = ''  ''"
  by (simp_all add: lower_def lower_char_def)

lemma ex_rank_keys:
  "rank_key Project ''python data'' ex_data_pipeline = Some 2"
  "rank_key Project ''python data'' ex_game_engine = Some 0"
  "rank_key Project ''cloud'' ex_game_engine = Some 0"
  "rank_key Certificate ''cloud'' ex_certificate = Some 1"
  by (simp_all add: rank_key_def project_text_def certificate_text_def str_item_def joined_def
        ex_data_pipeline_def ex_game_engine_def ex_certificate_def rank_text_def py_split_def
        lower_def lower_char_def is_space_def sublist_code prefix_code)

lemma ex_scores:
  "score Project ''python data'' ex_data_pipeline = 2"
  "score Project ''python data'' ex_game_engine = 0"
  "score Project ''cloud'' ex_game_engine = 0"
  "score Certificate ''cloud'' ex_certificate = 1"
  by (simp_all add: score_def ex_rank_keys)

lemma ex_ranked:
  "ranked [ex_data_pipeline, ex_game_engine] Project ''python data''
   = Some [ex_data_pipeline, ex_game_engine]"
  "ranked [ex_game_engine, ex_data_pipeline] Project ''python data''
   = Some [ex_data_pipeline, ex_game_engine]"
  "ranked [ex_game_engine] Project ''cloud'' = Some [ex_game_engine]"
  "ranked [ex_certificate] Certificate ''cloud'' = Some [ex_certificate]"
  by (simp_all add: ranked_ok ex_conforms ranking_def ex_serial ex_scores del: conforms.simps)

section \<open>Properties of the query endpoint\<close>

lemma coll_names:
  "coll_name Project = ''project''" "coll_name Certificate = ''certificate''"
  "coll_name JournalEntry = ''journalentry''" "coll_name Profile = ''profile''"
  by (simp_all add: coll_name_def lower_def lower_char_def)

lemma focus_text_simps:
  "focus_text None = []" "focus_text (Some []) = []"
  "focus_text (Some ''certificates'') = ''certificates''"
  by (simp_all add: focus_text_def lower_def lower_char_def)

lemma spec_keys_unset:
  "fo \<in> {None, Some []} \<Longrightarrow> spec_keys fo = {''projects'', ''certificates'', ''journal''}"
  by (auto simp: spec_keys_iff searched_simps focus_text_simps)

lemma spec_keys_named:
  "cls \<in> {Project, Certificate, JournalEntry} \<Longrightarrow> focus_text fo \<in> set (kind_names cls) \<Longrightarrow>
   spec_keys fo = {result_key cls}"
  by (auto simp: spec_keys_iff searched_simps kind_names_def result_key_def)

lemma spec_keys_other:
  "focus_text fo \<notin> set ['''', ''project'', ''projects'', ''certificate'', ''certificates'',
                         ''journal''] \<Longrightarrow> spec_keys fo = {}"
  by (auto simp: spec_keys_iff searched_simps)

lemma dom_empty_results: "dom (empty_results fo) = spec_keys fo"
  by (auto simp: empty_results_def dom_def)

text \<open>
  C3. Whenever \<open>ai_query\<close> returns a response, the keys of its \<open>results\<close> mapping are those
  of the kinds that the focus selects (\<open>spec_keys\<close>): all three of \<open>projects\<close>,
  \<open>certificates\<close> and \<open>journal\<close> when the focus is unset or empty, the key of one kind when
  the lower-cased focus is one of that kind's names (\<open>project\<close>, \<open>projects\<close>, \<open>certificate\<close>,
  \<open>certificates\<close>, \<open>journal\<close>), and none for any other focus. It returns when no database
  is configured. On a configured database it returns only for a focus that selects no kind:
  every request whose focus selects a kind is ended by the \<open>NotImplementedError\<close> of the test
  \<open>if db\<close> in the block of the first selected kind, and no \<open>results\<close> mapping is produced.
\<close>

theorem focus_selects_kinds:
  "(\<forall>resp. ai_query db p = Inr resp \<longrightarrow> dom (results resp) = spec_keys (focus p))
   \<and> (db = None \<longrightarrow> (\<exists>resp. ai_query db p = Inr resp))
   \<and> (db \<noteq> None \<and> spec_keys (focus p) \<noteq> {} \<longrightarrow> ai_query db p = Inl NotImplementedError)
   \<and> (focus p \<in> {None, Some []} \<longrightarrow>
        spec_keys (focus p) = {''projects'', ''certificates'', ''journal''})
   \<and> (\<forall>cls \<in> {Project, Certificate, JournalEntry}.
        focus_text (focus p) \<in> set (kind_names cls) \<longrightarrow> spec_keys (focus p) = {result_key cls})
   \<and> (focus_text (focus p) \<notin> set ['''', ''project'', ''projects'', ''certificate'',
                                     ''certificates'', ''journal''] \<longrightarrow> spec_keys (focus p) = {})"
proof (intro conjI)
  show "\<forall>resp. ai_query db p = Inr resp \<longrightarrow> dom (results resp) = spec_keys (focus p)"
  proof (cases db)
    case None
    then show ?thesis by (auto simp: ai_query_None dom_empty_results)
  next
    case (Some s)
    then show ?thesis by (auto simp: ai_query_Some split: if_splits)
  qed
  show "db = None \<longrightarrow> (\<exists>resp. ai_query db p = Inr resp)"
    by (simp add: ai_query_None)
  show "db \<noteq> None \<and> spec_keys (focus p) \<noteq> {} \<longrightarrow> ai_query db p = Inl NotImplementedError"
    by (cases db) (simp_all add: ai_query_Some)
  show "focus p \<in> {None, Some []} \<longrightarrow>
        spec_keys (focus p) = {''projects'', ''certificates'', ''journal''}"
    using spec_keys_unset by blast
  show "\<forall>cls \<in> {Project, Certificate, JournalEntry}.
        focus_text (focus p) \<in> set (kind_names cls) \<longrightarrow> spec_keys (focus p) = {result_key cls}"
    using spec_keys_named by blast
  show "focus_text (focus p) \<notin> set ['''', ''project'', ''projects'', ''certificate'',
                                     ''certificates'', ''journal''] \<longrightarrow> spec_keys (focus p) = {}"
    using spec_keys_other by blast
qed

theorem focus_selects_kinds_witness:
  "Some ex_store \<noteq> None
   \<and> spec_keys (focus \<lparr>question = ''cloud'', focus = None\<rparr>)
       = {''projects'', ''certificates'', ''journal''}
   \<and> ai_query (Some ex_store) \<lparr>question = ''cloud'', focus = None\<rparr> = Inl NotImplementedError
   \<and> spec_keys (focus \<lparr>question = ''cloud'', focus = Some ''certificates''\<rparr>) = {''certificates''}
   \<and> ai_query (Some ex_store) \<lparr>question = ''cloud'', focus = Some ''certificates''\<rparr>
       = Inl NotImplementedError
   \<and> (\<exists>resp. ai_query None \<lparr>question = ''cloud'', focus = Some ''certificates''\<rparr> = Inr resp
        \<and> dom (results resp) = {''certificates''})"
proof -
  let ?p = "\<lparr>question = ''cloud'', focus = None\<rparr>"
  let ?c = "\<lparr>question = ''cloud'', focus = Some ''certificates''\<rparr>"
  note a = focus_selects_kinds [of "Some ex_store" ?p]
  note b = focus_selects_kinds [of "Some ex_store" ?c]
  note n = focus_selects_kinds [of None ?c]
  have f: "focus_text (focus ?c) \<in> set (kind_names Certificate)"
    by (simp add: focus_text_simps kind_names_def)
  from a have ka: "spec_keys (focus ?p) = {''projects'', ''certificates'', ''journal''}" by simp
  from b f have "spec_keys (focus ?c) = {result_key Certificate}" by blast
  then have kb: "spec_keys (focus ?c) = {''certificates''}" by (simp add: result_key_def)
  from a ka have ra: "ai_query (Some ex_store) ?p = Inl NotImplementedError" by simp
  from b kb have rb: "ai_query (Some ex_store) ?c = Inl NotImplementedError" by simp
  from n have "\<exists>resp. ai_query None ?c = Inr resp" by simp
  then obtain resp where r: "ai_query None ?c = Inr resp" ..
  from n have "\<forall>resp. ai_query None ?c = Inr resp \<longrightarrow> dom (results resp) = spec_keys (focus ?c)"
    by (rule conjunct1)
  with r have "dom (results resp) = spec_keys (focus ?c)" by simp
  with kb have d: "dom (results resp) = {''certificates''}" by simp
  from r d have e: "\<exists>resp. ai_query None ?c = Inr resp \<and> dom (results resp) = {''certificates''}"
    by (intro exI[of _ resp] conjI)
  from ka kb ra rb e show ?thesis by (intro conjI) simp_all
qed

text \<open>
  C1. For every ASCII question and every Project record with ASCII text, the sort key that
  \<open>ai_query\<close> computes for the serialised record is the number of tokens of the lower-cased
  question, each counted as often as it occurs in the token list, that are substrings of the
  lower-cased search text: title, description, the space-joined \<open>tech_stack\<close> and the
  space-joined \<open>highlights\<close>, joined by spaces. For the question \<open>python data\<close> the project
  \<open>Data Pipeline\<close> (Python, SQL) has key 2 and \<open>Game Engine\<close> (C++) has key 0, and the sort
  puts the first before the second, whichever comes first in the store. Through the
  endpoint this output is not produced: on a database that holds the two projects the
  request raises \<open>NotImplementedError\<close> at the test \<open>if db\<close>.
\<close>

theorem project_score:
  "(ascii quest \<and> conforms Project d \<and> ascii (spec_project_text d) \<longrightarrow>
      rank_key Project (lower quest) (as_serializable d)
        = Some (spec_score quest (spec_project_text d)))
   \<and> rank_key Project (lower ''python data'') (as_serializable ex_data_pipeline) = Some 2
   \<and> rank_key Project (lower ''python data'') (as_serializable ex_game_engine) = Some 0
   \<and> map_option (take 5) (ranked [ex_data_pipeline, ex_game_engine] Project (lower ''python data''))
       = Some [ex_data_pipeline, ex_game_engine]
   \<and> map_option (take 5) (ranked [ex_game_engine, ex_data_pipeline] Project (lower ''python data''))
       = Some [ex_data_pipeline, ex_game_engine]
   \<and> ai_query (Some (two_projects [ex_data_pipeline, ex_game_engine]))
         \<lparr>question = ''python data'', focus = None\<rparr> = Inl NotImplementedError"
proof -
  have "rank_key Project (lower quest) (as_serializable d)
        = Some (spec_score quest (spec_project_text d))" if "conforms Project d"
    using that by (simp add: rank_key_def project_text_conforms rank_text_spec)
  moreover have "ai_query (Some (two_projects [ex_data_pipeline, ex_game_engine]))
         \<lparr>question = ''python data'', focus = None\<rparr> = Inl NotImplementedError"
    by (rule ai_query_raises[of _ _ Project]) (simp_all add: searched_def focus_text_simps)
  ultimately show ?thesis
    by (simp add: lower_examples ex_serial ex_rank_keys ex_ranked del: conforms.simps)
qed

theorem project_score_witness:
  "ascii ''Python  DATA python'' \<and> conforms Project ex_data_pipeline
   \<and> ascii (spec_project_text ex_data_pipeline)
   \<and> spec_project_text ex_data_pipeline = ''Data Pipeline  Python SQL ''
   \<and> rank_key Project (lower ''Python  DATA python'') (as_serializable ex_data_pipeline) = Some 3"
proof -
  have t: "spec_project_text ex_data_pipeline = ''Data Pipeline  Python SQL ''"
    by (simp add: spec_project_text_def text_field_def list_field_def ex_data_pipeline_def)
  have a: "ascii ''Python  DATA python''" by (simp add: ascii_def)
  have b: "ascii (spec_project_text ex_data_pipeline)" unfolding t by (simp add: ascii_def)
  have c: "conforms Project ex_data_pipeline" by (rule ex_conforms)
  have s: "spec_score ''Python  DATA python'' ''Data Pipeline  Python SQL '' = 3"
    by (simp add: spec_score_def py_split_def lower_def lower_char_def is_space_def
          sublist_code prefix_code)
  from project_score [of "''Python  DATA python''" ex_data_pipeline] a b c
  have "rank_key Project (lower ''Python  DATA python'') (as_serializable ex_data_pipeline)
        = Some (spec_score ''Python  DATA python'' (spec_project_text ex_data_pipeline))"
    by blast
  with a b c t s show ?thesis by simp
qed

text \<open>
  C2. For every question \<open>q\<close> and every kind, when the sort of the candidates returns a
  list \<open>r\<close> (of which \<open>results\<close> gets the first five), \<open>r\<close> is a permutation of the serialised
  candidates, is sorted by score descending, and keeps the candidates of any one score in
  the order in which the store returned them; when the question has no tokens every
  candidate scores 0 and \<open>r\<close> is the list of serialised candidates in store order. The sort
  returns for candidates that are records of their kind. Through the endpoint no ranked
  list is returned: a request that searches a kind on a configured database raises
  \<open>NotImplementedError\<close> at the test \<open>if db\<close>, and the lists of every response that is returned
  are empty.
\<close>

theorem ranking_sorted_stable:
  "(\<forall>r. ranked docs cls q = Some r \<longrightarrow>
        mset r = mset (map as_serializable docs)
      \<and> sorted (rev (map (score cls q) r))
      \<and> (\<forall>k. filter (\<lambda>d. score cls q d = k) r
             = filter (\<lambda>d. score cls q d = k) (map as_serializable docs))
      \<and> (py_split q = [] \<longrightarrow>
            (\<forall>d \<in> set (map as_serializable docs). rank_key cls q d = Some 0)
            \<and> take 5 r = take 5 (map as_serializable docs)))
   \<and> (list_all (conforms cls) docs \<and> cls \<in> {Project, Certificate, JournalEntry} \<longrightarrow>
        ranked docs cls q \<noteq> None)
   \<and> (db \<noteq> None \<and> searched (focus p) cls \<longrightarrow> ai_query db p = Inl NotImplementedError)
   \<and> (\<forall>resp k ds. ai_query db p = Inr resp \<and> results resp k = Some ds \<longrightarrow> ds = [])"
proof (intro conjI allI impI)
  fix r assume r: "ranked docs cls q = Some r"
  let ?cands = "map as_serializable docs"
  have rr: "r = ranking docs cls q" using r by (rule ranked_result)
  show "mset r = mset ?cands" unfolding rr by (rule ranking_props)
  show "sorted (rev (map (score cls q) r))" unfolding rr by (rule ranking_props)
  show "filter (\<lambda>d. score cls q d = k) r = filter (\<lambda>d. score cls q d = k) ?cands" for k
    unfolding rr by (rule ranking_props)
  assume nt: "py_split q = []"
  show z: "\<forall>d \<in> set ?cands. rank_key cls q d = Some 0"
    using ranked_defined[OF r] rank_key_no_tokens[OF nt] by fastforce
  then have "\<forall>d \<in> set ?cands. score cls q d = 0" by (simp add: score_def)
  then have "ranking docs cls q = ?cands" unfolding ranking_def by (rule desc_all_equal)
  then show "take 5 r = take 5 ?cands" unfolding rr by simp
next
  assume "list_all (conforms cls) docs \<and> cls \<in> {Project, Certificate, JournalEntry}"
  then show "ranked docs cls q \<noteq> None" by (simp add: ranked_ok del: conforms.simps)
next
  assume "db \<noteq> None \<and> searched (focus p) cls"
  then show "ai_query db p = Inl NotImplementedError"
    using ai_query_raises[of db p cls] by (simp add: searched_def)
next
  fix resp k ds assume "ai_query db p = Inr resp \<and> results resp k = Some ds"
  then show "ds = []" using ai_query_returns(2)[of db p resp k ds] by simp
qed

theorem ranking_sorted_stable_witness:
  "ranked [ex_game_engine, ex_data_pipeline] Project ''python data''
     = Some [ex_data_pipeline, ex_game_engine]
   \<and> sorted (rev (map (score Project ''python data'') [ex_data_pipeline, ex_game_engine]))
   \<and> ranked [ex_game_engine, ex_data_pipeline] Project ''  ''
       = Some [ex_game_engine, ex_data_pipeline]
   \<and> py_split ''  '' = []
   \<and> take 5 [ex_game_engine, ex_data_pipeline]
       = take 5 (map as_serializable [ex_game_engine, ex_data_pipeline])
   \<and> Some ex_store \<noteq> None \<and> searched (focus \<lparr>question = ''  '', focus = None\<rparr>) Project
   \<and> ai_query (Some ex_store) \<lparr>question = ''  '', focus = None\<rparr> = Inl NotImplementedError"
proof -
  let ?docs = "[ex_game_engine, ex_data_pipeline]"
  let ?p = "\<lparr>question = ''  '', focus = None\<rparr>"
  have e: "py_split ''  '' = []" by (simp add: py_split_def is_space_def)
  have c: "list_all (conforms Project) ?docs" using ex_conforms by (simp del: conforms.simps)
  have s: "searched (focus ?p) Project" by (simp add: searched_def focus_text_simps)
  note t1 = ranking_sorted_stable [of ?docs Project "''python data''" "Some ex_store" ?p]
  note t2 = ranking_sorted_stable [of ?docs Project "''  ''" "Some ex_store" ?p]
  have r1: "ranked ?docs Project ''python data'' = Some [ex_data_pipeline, ex_game_engine]"
    by (rule ex_ranked)
  from t1 r1 have s1: "sorted (rev (map (score Project ''python data'')
                          [ex_data_pipeline, ex_game_engine]))" by blast
  from t2 c have "ranked ?docs Project ''  '' \<noteq> None" by blast
  then obtain r where r2: "ranked ?docs Project ''  '' = Some r" by blast
  with t2 e have tk: "take 5 r = take 5 (map as_serializable ?docs)" by blast
  from t2 r2 have "mset r = mset (map as_serializable ?docs)" by blast
  then have "length r = 2" using mset_eq_length[of r "map as_serializable ?docs"] by simp
  with tk have "r = map as_serializable ?docs" by simp
  with r2 have r2': "ranked ?docs Project ''  '' = Some ?docs" by (simp add: ex_serial)
  from t2 s have q: "ai_query (Some ex_store) ?p = Inl NotImplementedError" by blast
  from r1 s1 r2' e s q show ?thesis by (simp add: ex_serial)
qed

lemma emitted_iff: "(emitted res key sentence \<noteq> []) = (\<exists>d ds. res key = Some (d # ds))"
  by (auto simp: emitted_def split: option.splits list.splits)

lemma emitted_top: "res key = Some (d # ds) \<Longrightarrow> emitted res key sentence = [sentence d]"
  by (simp add: emitted_def)

lemma emitted_length: "length (emitted res key sentence) \<le> 1"
  by (simp add: emitted_def split: option.splits list.splits)

text \<open>
  C4. For every \<open>results\<close> mapping whose top project has a list of technologies and whose
  top journal entry has a list of tags, the summary is built without error and the answer,
  the trimmed summary, is the sentences of the kinds in the order projects, certificates,
  journal, joined by single blanks. There are at most three sentences. A kind has a
  sentence exactly when its list in \<open>results\<close> is not empty, whatever the scores, and the
  sentence is that of the first record of the list. The journal sentence names the first
  three tags of that entry at most. Through the endpoint no sentence is returned: a request
  that searches a kind on a configured database raises \<open>NotImplementedError\<close> at the test
  \<open>if db\<close>, and the answer of every response that is returned is empty.
\<close>

theorem answer_sentences:
  "((\<forall>d ds. res ''projects'' = Some (d # ds) \<longrightarrow> is_list d ''tech_stack'')
    \<and> (\<forall>d ds. res ''journal'' = Some (d # ds) \<longrightarrow> is_list d ''tags'') \<longrightarrow>
      (\<exists>s. summary res = Some s
         \<and> strip s = join '' '' (emitted res ''projects'' spec_project_sentence
                              @ emitted res ''certificates'' spec_certificate_sentence
                              @ emitted res ''journal'' spec_journal_sentence)))
   \<and> length (emitted res ''projects'' spec_project_sentence
             @ emitted res ''certificates'' spec_certificate_sentence
             @ emitted res ''journal'' spec_journal_sentence) \<le> 3
   \<and> (\<forall>key sentence. (emitted res key sentence \<noteq> []) = (\<exists>d ds. res key = Some (d # ds)))
   \<and> (\<forall>key sentence d ds. res key = Some (d # ds) \<longrightarrow> emitted res key sentence = [sentence d])
   \<and> (\<forall>d. spec_journal_sentence d
            = ''Learning focus: '' @ join '', '' (take 3 (list_field d ''tags'')) @ ''.''
          \<and> length (take 3 (list_field d ''tags'')) \<le> 3)
   \<and> (db \<noteq> None \<and> spec_keys (focus p) \<noteq> {} \<longrightarrow> ai_query db p = Inl NotImplementedError)
   \<and> (\<forall>resp. ai_query db p = Inr resp \<longrightarrow> answer resp = [])"
proof (intro conjI)
  show "(\<forall>d ds. res ''projects'' = Some (d # ds) \<longrightarrow> is_list d ''tech_stack'')
    \<and> (\<forall>d ds. res ''journal'' = Some (d # ds) \<longrightarrow> is_list d ''tags'') \<longrightarrow>
      (\<exists>s. summary res = Some s
         \<and> strip s = join '' '' (emitted res ''projects'' spec_project_sentence
                              @ emitted res ''certificates'' spec_certificate_sentence
                              @ emitted res ''journal'' spec_journal_sentence))"
    using summary_ok[of res] unfolding spec_answer_def by blast
  show "length (emitted res ''projects'' spec_project_sentence
             @ emitted res ''certificates'' spec_certificate_sentence
             @ emitted res ''journal'' spec_journal_sentence) \<le> 3"
    using emitted_length[of res "''projects''" spec_project_sentence]
      emitted_length[of res "''certificates''" spec_certificate_sentence]
      emitted_length[of res "''journal''" spec_journal_sentence]
    by simp
  show "\<forall>key sentence. (emitted res key sentence \<noteq> []) = (\<exists>d ds. res key = Some (d # ds))"
    using emitted_iff by blast
  show "\<forall>key sentence d ds. res key = Some (d # ds) \<longrightarrow> emitted res key sentence = [sentence d]"
    using emitted_top by blast
  show "\<forall>d. spec_journal_sentence d
            = ''Learning focus: '' @ join '', '' (take 3 (list_field d ''tags'')) @ ''.''
          \<and> length (take 3 (list_field d ''tags'')) \<le> 3"
    by (simp add: spec_journal_sentence_def)
  show "db \<noteq> None \<and> spec_keys (focus p) \<noteq> {} \<longrightarrow> ai_query db p = Inl NotImplementedError"
    by (cases db) (simp_all add: ai_query_Some)
  show "\<forall>resp. ai_query db p = Inr resp \<longrightarrow> answer resp = []"
    using ai_query_returns(1) by blast
qed

theorem answer_sentences_witness:
  "is_list ex_game_engine ''tech_stack'' \<and> is_list ex_journal ''tags''
   \<and> map_option strip (summary [''projects'' \<mapsto> [ex_game_engine], ''journal'' \<mapsto> [ex_journal]])
       = Some (''Top project: Game Engine '' @ em_dash
               @ '' tech: C++. Learning focus: rust, wasm, perf.'')"
proof -
  let ?res = "[''projects'' \<mapsto> [ex_game_engine], ''journal'' \<mapsto> [ex_journal]]"
  have a: "\<forall>d ds. ?res ''projects'' = Some (d # ds) \<longrightarrow> is_list d ''tech_stack''"
    by (simp add: is_list_def ex_game_engine_def)
  have b: "\<forall>d ds. ?res ''journal'' = Some (d # ds) \<longrightarrow> is_list d ''tags''"
    by (simp add: is_list_def ex_journal_def)
  from answer_sentences [of ?res None "\<lparr>question = [], focus = None\<rparr>"] a b
  obtain s where s: "summary ?res = Some s"
    and t: "strip s = join '' '' (emitted ?res ''projects'' spec_project_sentence
                              @ emitted ?res ''certificates'' spec_certificate_sentence
                              @ emitted ?res ''journal'' spec_journal_sentence)"
    by blast
  have "join '' '' (emitted ?res ''projects'' spec_project_sentence
                              @ emitted ?res ''certificates'' spec_certificate_sentence
                              @ emitted ?res ''journal'' spec_journal_sentence)
        = ''Top project: Game Engine '' @ em_dash @ '' tech: C++. Learning focus: rust, wasm, perf.''"
    by (simp add: emitted_def spec_project_sentence_def spec_journal_sentence_def fmt_get_def
          list_field_def ex_game_engine_def ex_journal_def)
  with s t show ?thesis by (simp add: is_list_def ex_game_engine_def ex_journal_def)
qed


section \<open>Properties of the CRUD helpers\<close>

lemma hex_not_space: "is_hex c \<Longrightarrow> \<not> Py_ISSPACE c"
  by (auto simp: is_hex_def Py_ISSPACE_def)

lemma fromhex_bad_char:
  "c \<in> set s \<Longrightarrow> \<not> is_hex c \<Longrightarrow> \<not> Py_ISSPACE c \<Longrightarrow> fromhex s = None"
  by (induction s rule: fromhex.induct) auto

lemma fromhex_digits:
  "list_all is_hex s \<Longrightarrow> even (length s) \<Longrightarrow> fromhex s = Some (lower s)"
  by (induction s rule: fromhex.induct) (auto simp: lower_def hex_not_space)

lemma ObjectId_rejects:
  "length id_str \<noteq> 24 \<or> (\<exists>c \<in> set id_str. \<not> is_hex c \<and> \<not> Py_ISSPACE c) \<Longrightarrow>
   ObjectId id_str = None"
  by (auto simp: ObjectId_def fromhex_bad_char)

lemma ObjectId_digits:
  "length id_str = 24 \<Longrightarrow> list_all is_hex id_str \<Longrightarrow> ObjectId id_str = Some (lower id_str)"
  by (simp add: ObjectId_def fromhex_digits)

text \<open>
  C8. On a configured database, for every id string that \<open>ObjectId\<close> rejects, \<open>update_item\<close>
  and \<open>delete_item\<close> fail with the 400 error \<open>Invalid ID\<close>, no store operation has been
  applied and the store is as it was. \<open>ObjectId\<close> rejects every string whose length is not
  24 and every string with a character that is neither a hexadecimal digit nor ASCII
  whitespace, and it accepts the strings of 24 hexadecimal digits. With no database
  configured both helpers fail with \<open>TypeError\<close> for every id string, before the id is looked
  at.
\<close>

theorem invalid_id_rejected:
  "(ObjectId id_str = None \<longrightarrow>
      update_item (Some s) model_cls id_str data now
        = (Inl (HTTPException 400 ''Invalid ID''), Some s)
      \<and> delete_item (Some s) model_cls id_str = (Inl (HTTPException 400 ''Invalid ID''), Some s))
   \<and> (length id_str \<noteq> 24 \<or> (\<exists>c \<in> set id_str. \<not> is_hex c \<and> \<not> Py_ISSPACE c) \<longrightarrow>
        ObjectId id_str = None)
   \<and> (length id_str = 24 \<and> list_all is_hex id_str \<longrightarrow> ObjectId id_str = Some (lower id_str))
   \<and> update_item None model_cls id_str data now = (Inl TypeError, None)
   \<and> delete_item None model_cls id_str = (Inl TypeError, None)"
  using ObjectId_rejects[of id_str] ObjectId_digits[of id_str]
  by (simp add: update_item_def delete_item_def to_oid_def)

theorem invalid_id_rejected_witness:
  "length ''not-an-id'' \<noteq> 24
   \<and> ObjectId ''not-an-id'' = None
   \<and> update_item (Some ex_store) Project ''not-an-id'' [''title'' \<mapsto> VStr ''X'']
        ''2024-05-01T10:00:00''
       = (Inl (HTTPException 400 ''Invalid ID''), Some ex_store)
   \<and> delete_item (Some ex_store) Project ''not-an-id''
       = (Inl (HTTPException 400 ''Invalid ID''), Some ex_store)"
proof -
  have l: "length ''not-an-id'' \<noteq> 24" by simp
  note t = invalid_id_rejected [of "''not-an-id''" ex_store Project "[''title'' \<mapsto> VStr ''X'']"
      "''2024-05-01T10:00:00''"]
  from t l have o: "ObjectId ''not-an-id'' = None" by blast
  with t l show ?thesis by blast
qed

text \<open>
  An id of 22 hexadecimal digits followed by two blanks is not a string of 24 hexadecimal
  digits, yet \<open>ObjectId\<close> accepts it: the store is asked, and the answer is the 404 error.
  With no database configured a malformed id gives \<open>TypeError\<close>, not the 400 error.
\<close>

theorem malformed_id_not_rejected:
  "\<not> list_all is_hex ''0123456789abcdef012345  ''
   \<and> ObjectId ''0123456789abcdef012345  '' = Some ''0123456789abcdef012345''
   \<and> delete_item (Some ex_store) Project ''0123456789abcdef012345  ''
       = (Inl (HTTPException 404 ''Not found''), Some ex_store)
   \<and> update_item (Some ex_store) Project ''0123456789abcdef012345  '' [''title'' \<mapsto> VStr ''X'']
        ''2024-05-01T10:00:00''
       = (Inl (HTTPException 404 ''Not found''), Some ex_store)
   \<and> delete_item None Project ''not-an-id'' = (Inl TypeError, None)
   \<and> update_item None Project ''not-an-id'' [''title'' \<mapsto> VStr ''X''] ''2024-05-01T10:00:00''
       = (Inl TypeError, None)"
proof -
  have o: "ObjectId ''0123456789abcdef012345  '' = Some ''0123456789abcdef012345''"
    by (simp add: ObjectId_def is_hex_def Py_ISSPACE_def lower_char_def)
  have f: "List.find (has_id ''0123456789abcdef012345'') (ex_store (coll_name Project)) = None"
    by (simp add: ex_store_def coll_names has_id_def)
  have h: "\<not> list_all is_hex ''0123456789abcdef012345  ''"
    by (simp add: is_hex_def)
  show ?thesis
    using h o f
    by (simp add: delete_item_def update_item_def to_oid_def delete_one_def update_one_def)
qed

end
